theory Spec2Isabelle
  imports Main "HOL-Library.Char_ord" "HOL-Library.List_Lexorder"
begin

section \<open>The asset record and its JSON encoding\<close>

text \<open>
  The chaincode keeps custody records in the world state of a ledger. A Go \<^verbatim>\<open>string\<close> is a
  sequence of bytes, here a \<^typ>\<open>string\<close> whose characters are the bytes. The struct
  \<^verbatim>\<open>Asset\<close> declares its fields in the order CustodianName, CustodianAgency, CaseNumber,
  EvidenceInfo, with the JSON names of its tags.
\<close>

record Asset =
  CustodianName :: string
  CustodianAgency :: string
  CaseNumber :: string
  EvidenceInfo :: string

subsection \<open>Quoting a string (encoding/json, Go 1.22 and later)\<close>

text \<open>
  \<^verbatim>\<open>json.Marshal\<close> writes a string between double quotes. Bytes of the HTML-safe set are
  copied; the quote and the backslash get a backslash; backspace, form feed, newline, carriage
  return and tab get their short escapes; every other byte below 0x80 (the controls and
  \<^verbatim>\<open><\<close>, \<^verbatim>\<open>>\<close>, \<^verbatim>\<open>&\<close>) is written as a \<^verbatim>\<open>\u00XX\<close> escape. From a byte of
  0x80 or more the encoder decodes one UTF-8 sequence: an invalid byte is replaced by the escape of
  U+FFFD, the separators U+2028 and U+2029 are escaped, every other sequence is copied.
\<close>

definition hex :: string where
  \<open>hex = ''0123456789abcdef''\<close>

definition RuneError :: nat where
  \<open>RuneError = 0xFFFD\<close>

definition htmlSafeSet :: \<open>char \<Rightarrow> bool\<close> where
  \<open>htmlSafeSet b \<longleftrightarrow>
     0x20 \<le> (of_char b :: nat) \<and> (of_char b :: nat) < 0x80 \<and>
     b \<noteq> CHR 0x22 \<and> b \<noteq> CHR ''&'' \<and> b \<noteq> CHR ''<'' \<and> b \<noteq> CHR ''>'' \<and> b \<noteq> CHR 0x5C\<close>

text \<open>
  The table \<^verbatim>\<open>first\<close> of package utf8 with its accept ranges: for a leading byte, the length
  of the sequence and the bounds of the second byte; \<open>None\<close> for a byte that starts no sequence.
\<close>

definition first :: \<open>nat \<Rightarrow> (nat \<times> nat \<times> nat) option\<close> where
  \<open>first s0 =
     (if s0 < 0xC2 then None
      else if s0 < 0xE0 then Some (2, 0x80, 0xBF)
      else if s0 = 0xE0 then Some (3, 0xA0, 0xBF)
      else if s0 = 0xED then Some (3, 0x80, 0x9F)
      else if s0 < 0xF0 then Some (3, 0x80, 0xBF)
      else if s0 = 0xF0 then Some (4, 0x90, 0xBF)
      else if s0 < 0xF4 then Some (4, 0x80, 0xBF)
      else if s0 = 0xF4 then Some (4, 0x80, 0x8F)
      else None)\<close>

fun DecodeRuneInString :: \<open>string \<Rightarrow> nat \<times> nat\<close> where
  \<open>DecodeRuneInString [] = (RuneError, 0)\<close>
| \<open>DecodeRuneInString (c0 # s) =
     (let s0 = (of_char c0 :: nat) in
      if s0 < 0x80 then (s0, 1)
      else
        (case first s0 of
           None \<Rightarrow> (RuneError, 1)
         | Some (sz, lo, hi) \<Rightarrow>
             if length (c0 # s) < sz then (RuneError, 1)
             else
               (let s1 = (of_char (s ! 0) :: nat) in
                if s1 < lo \<or> hi < s1 then (RuneError, 1)
                else if sz \<le> 2 then ((s0 mod 0x20) * 0x40 + s1 mod 0x40, 2)
                else
                  (let s2 = (of_char (s ! 1) :: nat) in
                   if s2 < 0x80 \<or> 0xBF < s2 then (RuneError, 1)
                   else if sz \<le> 3 then
                     ((s0 mod 0x10) * 0x1000 + (s1 mod 0x40) * 0x40 + s2 mod 0x40, 3)
                   else
                     (let s3 = (of_char (s ! 2) :: nat) in
                      if s3 < 0x80 \<or> 0xBF < s3 then (RuneError, 1)
                      else
                        ((s0 mod 0x08) * 0x40000 + (s1 mod 0x40) * 0x1000 +
                           (s2 mod 0x40) * 0x40 + s3 mod 0x40, 4))))))\<close>

definition escapeByte :: \<open>char \<Rightarrow> string\<close> where
  \<open>escapeByte b =
     (if b = CHR 0x5C \<or> b = CHR 0x22 then [CHR 0x5C, b]
      else if b = CHR 0x08 then [CHR 0x5C, CHR ''b'']
      else if b = CHR 0x0C then [CHR 0x5C, CHR ''f'']
      else if b = CHR 0x0A then [CHR 0x5C, CHR ''n'']
      else if b = CHR 0x0D then [CHR 0x5C, CHR ''r'']
      else if b = CHR 0x09 then [CHR 0x5C, CHR ''t'']
      else [CHR 0x5C, CHR ''u'', CHR ''0'', CHR ''0'',
            hex ! (of_char b div 16), hex ! (of_char b mod 16)])\<close>

fun appendString_loop :: \<open>string \<Rightarrow> string\<close> where
  \<open>appendString_loop [] = []\<close>
| \<open>appendString_loop (b # src) =
     (if (of_char b :: nat) < 0x80 then
        (if htmlSafeSet b then [b] else escapeByte b) @ appendString_loop src
      else
        (case DecodeRuneInString (b # src) of
           (c, n) \<Rightarrow>
             if c = RuneError \<and> n = 1 then
               [CHR 0x5C, CHR ''u'', CHR ''f'', CHR ''f'', CHR ''f'', CHR ''d''] @
               appendString_loop src
             else if c = 0x2028 \<or> c = 0x2029 then
               [CHR 0x5C, CHR ''u'', CHR ''2'', CHR ''0'', CHR ''2'', hex ! (c mod 16)] @
               appendString_loop (drop (n - 1) src)
             else
               b # take (n - 1) src @ appendString_loop (drop (n - 1) src)))\<close>

definition appendString :: \<open>string \<Rightarrow> string\<close> where
  \<open>appendString src = [CHR 0x22] @ appendString_loop src @ [CHR 0x22]\<close>

subsection \<open>Encoding a record\<close>

text \<open>
  \<^verbatim>\<open>json.Marshal\<close> writes the fields of a struct in the order of their declaration, each under
  the name of its tag: \<open>encodeAsset\<close> is what its encoder writes for an \<^verbatim>\<open>Asset\<close>. It returns
  an error only for values it cannot encode, and a struct of four strings is not one of them; the
  callers test the error all the same, so the model keeps the result a sum.
\<close>

definition encodeAsset :: \<open>Asset \<Rightarrow> string\<close> where
  \<open>encodeAsset asset =
     ''{"custodianName":'' @ appendString (CustodianName asset) @
     '',"custodianAgency":'' @ appendString (CustodianAgency asset) @
     '',"caseNumber":'' @ appendString (CaseNumber asset) @
     '',"evidenceInfo":'' @ appendString (EvidenceInfo asset) @ ''}''\<close>

definition json_Marshal :: \<open>Asset \<Rightarrow> string + string\<close> where
  \<open>json_Marshal asset = Inr (encodeAsset asset)\<close>

text \<open>
  The layout the specification asks for, from its words: the same object with its keys in
  alphabetical order.
\<close>

definition spec_alphabetical_encoding :: \<open>Asset \<Rightarrow> string\<close> where
  \<open>spec_alphabetical_encoding asset =
     ''{"caseNumber":'' @ appendString (CaseNumber asset) @
     '',"custodianAgency":'' @ appendString (CustodianAgency asset) @
     '',"custodianName":'' @ appendString (CustodianName asset) @
     '',"evidenceInfo":'' @ appendString (EvidenceInfo asset) @ ''}''\<close>

subsection \<open>Decoding\<close>

text \<open>
  \<^verbatim>\<open>json.Unmarshal\<close> is a function of the standard library from the stored bytes to a record
  or an error message. The operations take it as their first argument, so that what is proved of
  them holds for every decoder.
\<close>

type_synonym Unmarshal = \<open>string \<Rightarrow> string + Asset\<close>

text \<open>
  A small decoder to put in that place in the examples: it reads the compact object that
  \<open>json_Marshal\<close> writes, with the four keys in the order of the struct and strings without
  escapes, and refuses every other input. Where it returns a record, that record is the one
  \<^verbatim>\<open>json.Unmarshal\<close> returns for the same bytes.
\<close>

fun stripPrefix :: \<open>string \<Rightarrow> string \<Rightarrow> string option\<close> where
  \<open>stripPrefix [] bs = Some bs\<close>
| \<open>stripPrefix (p # ps) [] = None\<close>
| \<open>stripPrefix (p # ps) (b # bs) = (if p = b then stripPrefix ps bs else None)\<close>

fun plainString :: \<open>string \<Rightarrow> (string \<times> string) option\<close> where
  \<open>plainString [] = None\<close>
| \<open>plainString (b # bs) =
     (if b = CHR 0x22 then Some ([], bs)
      else if htmlSafeSet b then
        (case plainString bs of None \<Rightarrow> None | Some (s, rest) \<Rightarrow> Some (b # s, rest))
      else None)\<close>

definition plainField :: \<open>string \<Rightarrow> string \<Rightarrow> (string \<times> string) option\<close> where
  \<open>plainField key bs =
     (case stripPrefix (CHR 0x22 # key @ [CHR 0x22, CHR '':'', CHR 0x22]) bs of
        None \<Rightarrow> None
      | Some rest \<Rightarrow> plainString rest)\<close>

definition decodeCompact :: Unmarshal where
  \<open>decodeCompact bs =
     (case stripPrefix ''{'' bs of
        None \<Rightarrow> Inl ''invalid character looking for beginning of value''
      | Some r0 \<Rightarrow>
     (case plainField ''custodianName'' r0 of
        None \<Rightarrow> Inl ''invalid character in object''
      | Some (name, r1) \<Rightarrow>
     (case Option.bind (stripPrefix '','' r1) (plainField ''custodianAgency'') of
        None \<Rightarrow> Inl ''invalid character in object''
      | Some (agency, r2) \<Rightarrow>
     (case Option.bind (stripPrefix '','' r2) (plainField ''caseNumber'') of
        None \<Rightarrow> Inl ''invalid character in object''
      | Some (caseNo, r3) \<Rightarrow>
     (case Option.bind (stripPrefix '','' r3) (plainField ''evidenceInfo'') of
        None \<Rightarrow> Inl ''invalid character in object''
      | Some (info, r4) \<Rightarrow>
          if r4 = ''}'' then
            Inr \<lparr>CustodianName = name, CustodianAgency = agency,
                 CaseNumber = caseNo, EvidenceInfo = info\<rparr>
          else Inl ''invalid character after object'')))))\<close>

section \<open>The world state\<close>

text \<open>
  The contract reaches the ledger through the stub of its transaction context: \<^verbatim>\<open>GetState\<close>,
  \<^verbatim>\<open>PutState\<close>, \<^verbatim>\<open>DelState\<close> and \<^verbatim>\<open>GetStateByRange\<close>. The stub is an interface; its
  model is an ordered key-value store, the keys in ascending byte order, in which every call may
  fail: \<open>getFault\<close>, \<open>putFault\<close>, \<open>delFault\<close>, \<open>rangeFault\<close> and \<open>nextFault\<close> give the
  error message of a call that fails and \<open>None\<close> for one that succeeds. A call that fails leaves
  the store as it was; a put or a delete that succeeds is seen by every later call. The contract
  knows the store through these calls only: a key is present when \<open>GetState\<close> returns a value
  for it, and absent when \<open>GetState\<close> returns nil and no error.
\<close>

record Stub =
  world :: \<open>(string \<times> string) list\<close>
  getFault :: \<open>string \<Rightarrow> string option\<close>
  putFault :: \<open>string \<Rightarrow> string \<Rightarrow> string option\<close>
  delFault :: \<open>string \<Rightarrow> string option\<close>
  rangeFault :: \<open>string option\<close>
  nextFault :: \<open>string \<Rightarrow> string option\<close>

fun put_kv :: \<open>string \<Rightarrow> string \<Rightarrow> (string \<times> string) list \<Rightarrow> (string \<times> string) list\<close> where
  \<open>put_kv k v [] = [(k, v)]\<close>
| \<open>put_kv k v ((k', v') # kvs) =
     (if k = k' then (k, v) # kvs
      else if k < k' then (k, v) # (k', v') # kvs
      else (k', v') # put_kv k v kvs)\<close>

definition del_kv :: \<open>string \<Rightarrow> (string \<times> string) list \<Rightarrow> (string \<times> string) list\<close> where
  \<open>del_kv k kvs = filter (\<lambda>kv. fst kv \<noteq> k) kvs\<close>

text \<open>\<^verbatim>\<open>GetState\<close> returns the value of a key, or nil (\<open>None\<close>) for a key that has none.\<close>

definition GetState :: \<open>Stub \<Rightarrow> string \<Rightarrow> string + string option\<close> where
  \<open>GetState stub key =
     (case getFault stub key of
        Some err \<Rightarrow> Inl err
      | None \<Rightarrow> Inr (map_of (world stub) key))\<close>

definition PutState :: \<open>Stub \<Rightarrow> string \<Rightarrow> string \<Rightarrow> string option \<times> Stub\<close> where
  \<open>PutState stub key v =
     (case putFault stub key v of
        Some err \<Rightarrow> (Some err, stub)
      | None \<Rightarrow> (None, stub\<lparr>world := put_kv key v (world stub)\<rparr>))\<close>

definition DelState :: \<open>Stub \<Rightarrow> string \<Rightarrow> string option \<times> Stub\<close> where
  \<open>DelState stub key =
     (case delFault stub key of
        Some err \<Rightarrow> (Some err, stub)
      | None \<Rightarrow> (None, stub\<lparr>world := del_kv key (world stub)\<rparr>))\<close>

text \<open>
  \<^verbatim>\<open>GetStateByRange\<close> opens an iterator over the keys from \<open>startKey\<close> (included) to
  \<open>endKey\<close> (excluded), in key order; an empty \<open>endKey\<close> is no upper bound. The iterator is
  the list of the entries still to come.
\<close>

definition GetStateByRange ::
  \<open>Stub \<Rightarrow> string \<Rightarrow> string \<Rightarrow> string + (string \<times> string) list\<close> where
  \<open>GetStateByRange stub startKey endKey =
     (case rangeFault stub of
        Some err \<Rightarrow> Inl err
      | None \<Rightarrow>
          Inr (filter (\<lambda>kv. startKey \<le> fst kv \<and> (endKey = [] \<or> fst kv < endKey))
                 (world stub)))\<close>

section \<open>The contract\<close>

text \<open>
  Every Go error of the contract is one of five kinds. \<open>AlreadyExists k\<close> is the error
  \<^verbatim>\<open>the asset k already exists\<close>, \<open>NotFound k\<close> is \<^verbatim>\<open>the asset k does not exist\<close>; an error
  of \<^verbatim>\<open>json.Marshal\<close> is an \<open>EncodingError\<close>, one of \<^verbatim>\<open>json.Unmarshal\<close> a
  \<open>DecodingError\<close>, and an error of the stub a \<open>StoreError\<close>, each with its message.
\<close>

datatype error =
    AlreadyExists string
  | NotFound string
  | EncodingError string
  | DecodingError string
  | StoreError string

definition InitLedger_assets :: \<open>Asset list\<close> where
  \<open>InitLedger_assets =
     [\<lparr>CustodianName = ''Zaki'', CustodianAgency = ''RCED'', CaseNumber = ''1'',
        EvidenceInfo = ''HP01/HP02''\<rparr>,
      \<lparr>CustodianName = ''Aya'', CustodianAgency = ''RBPF'', CaseNumber = ''2'',
        EvidenceInfo = ''HP01/HP02/HP03''\<rparr>,
      \<lparr>CustodianName = ''Adi'', CustodianAgency = ''KDN'', CaseNumber = ''3'',
        EvidenceInfo = ''HP01/HP02/SIM01/SIM02''\<rparr>,
      \<lparr>CustodianName = ''Dan'', CustodianAgency = ''CSB'', CaseNumber = ''4'',
        EvidenceInfo = ''HP01/HP02/SIM01/''\<rparr>,
      \<lparr>CustodianName = ''Azmi'', CustodianAgency = ''RCED'', CaseNumber = ''5'',
        EvidenceInfo = ''HP01/HP02/HP03/SIM01/SIM02''\<rparr>,
      \<lparr>CustodianName = ''Mirul'', CustodianAgency = ''CSB'', CaseNumber = ''6'',
        EvidenceInfo = ''HP01/HP02/HP03/SIM01/SIM02/SIM03''\<rparr>]\<close>

fun InitLedger_loop :: \<open>Stub \<Rightarrow> Asset list \<Rightarrow> error option \<times> Stub\<close> where
  \<open>InitLedger_loop stub [] = (None, stub)\<close>
| \<open>InitLedger_loop stub (asset # assets) =
     (case json_Marshal asset of
        Inl err \<Rightarrow> (Some (EncodingError err), stub)
      | Inr assetJSON \<Rightarrow>
          (case PutState stub (CustodianName asset) assetJSON of
             (Some err, stub') \<Rightarrow>
               (Some (StoreError (''failed to put to world state. '' @ err)), stub')
           | (None, stub') \<Rightarrow> InitLedger_loop stub' assets))\<close>

definition InitLedger :: \<open>Stub \<Rightarrow> error option \<times> Stub\<close> where
  \<open>InitLedger stub = InitLedger_loop stub InitLedger_assets\<close>

definition AssetExists :: \<open>Stub \<Rightarrow> string \<Rightarrow> error + bool\<close> where
  \<open>AssetExists stub custodianName =
     (case GetState stub custodianName of
        Inl err \<Rightarrow> Inl (StoreError (''failed to read from world state: '' @ err))
      | Inr assetJSON \<Rightarrow> Inr (assetJSON \<noteq> None))\<close>

definition CreateAsset ::
  \<open>Stub \<Rightarrow> string \<Rightarrow> string \<Rightarrow> string \<Rightarrow> string \<Rightarrow> error option \<times> Stub\<close> where
  \<open>CreateAsset stub custodianName custodianAgency caseNumber evidenceInfo =
     (case AssetExists stub custodianName of
        Inl err \<Rightarrow> (Some err, stub)
      | Inr exists \<Rightarrow>
          if exists then (Some (AlreadyExists custodianName), stub)
          else
            (let asset = \<lparr>CustodianName = custodianName, CustodianAgency = custodianAgency,
                          CaseNumber = caseNumber, EvidenceInfo = evidenceInfo\<rparr>
             in case json_Marshal asset of
                  Inl err \<Rightarrow> (Some (EncodingError err), stub)
                | Inr assetJSON \<Rightarrow>
                    (case PutState stub custodianName assetJSON of
                       (Some err, stub') \<Rightarrow> (Some (StoreError err), stub')
                     | (None, stub') \<Rightarrow> (None, stub'))))\<close>

definition ReadAsset :: \<open>Unmarshal \<Rightarrow> Stub \<Rightarrow> string \<Rightarrow> error + Asset\<close> where
  \<open>ReadAsset unmarshal stub custodianName =
     (case GetState stub custodianName of
        Inl err \<Rightarrow> Inl (StoreError (''failed to read from world state: '' @ err))
      | Inr None \<Rightarrow> Inl (NotFound custodianName)
      | Inr (Some assetJSON) \<Rightarrow>
          (case unmarshal assetJSON of
             Inl err \<Rightarrow> Inl (DecodingError err)
           | Inr asset \<Rightarrow> Inr asset))\<close>

definition UpdateAsset ::
  \<open>Stub \<Rightarrow> string \<Rightarrow> string \<Rightarrow> string \<Rightarrow> string \<Rightarrow> error option \<times> Stub\<close> where
  \<open>UpdateAsset stub custodianName custodianAgency caseNumber evidenceInfo =
     (case AssetExists stub custodianName of
        Inl err \<Rightarrow> (Some err, stub)
      | Inr exists \<Rightarrow>
          if \<not> exists then (Some (NotFound custodianName), stub)
          else
            (let asset = \<lparr>CustodianName = custodianName, CustodianAgency = custodianAgency,
                          CaseNumber = caseNumber, EvidenceInfo = evidenceInfo\<rparr>
             in case json_Marshal asset of
                  Inl err \<Rightarrow> (Some (EncodingError err), stub)
                | Inr assetJSON \<Rightarrow>
                    (case PutState stub custodianName assetJSON of
                       (Some err, stub') \<Rightarrow> (Some (StoreError err), stub')
                     | (None, stub') \<Rightarrow> (None, stub'))))\<close>

definition DeleteAsset :: \<open>Stub \<Rightarrow> string \<Rightarrow> error option \<times> Stub\<close> where
  \<open>DeleteAsset stub custodianName =
     (case AssetExists stub custodianName of
        Inl err \<Rightarrow> (Some err, stub)
      | Inr exists \<Rightarrow>
          if \<not> exists then (Some (NotFound custodianName), stub)
          else
            (case DelState stub custodianName of
               (Some err, stub') \<Rightarrow> (Some (StoreError err), stub')
             | (None, stub') \<Rightarrow> (None, stub')))\<close>

definition TransferAsset ::
  \<open>Unmarshal \<Rightarrow> Stub \<Rightarrow> string \<Rightarrow> string \<Rightarrow> string \<Rightarrow> (error + string) \<times> Stub\<close> where
  \<open>TransferAsset unmarshal stub caseNumber newcustodianName newcustodianAgency =
     (case ReadAsset unmarshal stub caseNumber of
        Inl err \<Rightarrow> (Inl err, stub)
      | Inr asset \<Rightarrow>
          (let oldcustodianName = CustodianName asset;
               asset' = asset\<lparr>CustodianName := newcustodianName,
                              CustodianAgency := newcustodianAgency\<rparr>
           in case json_Marshal asset' of
                Inl err \<Rightarrow> (Inl (EncodingError err), stub)
              | Inr assetJSON \<Rightarrow>
                  (case PutState stub caseNumber assetJSON of
                     (Some err, stub') \<Rightarrow> (Inl (StoreError err), stub')
                   | (None, stub') \<Rightarrow> (Inr oldcustodianName, stub'))))\<close>

text \<open>
  The loop of \<^verbatim>\<open>GetAllAssets\<close>: \<open>resultsIterator\<close> holds the entries still to come,
  \<open>assets\<close> the records decoded so far. \<^verbatim>\<open>Next\<close> may fail; an error of it or of the decoder
  returns nil and the error. Closing the iterator changes neither the result nor the store.
\<close>

fun GetAllAssets_loop ::
  \<open>Unmarshal \<Rightarrow> Stub \<Rightarrow> (string \<times> string) list \<Rightarrow> Asset list \<Rightarrow> error + Asset list\<close> where
  \<open>GetAllAssets_loop unmarshal stub [] assets = Inr assets\<close>
| \<open>GetAllAssets_loop unmarshal stub (queryResponse # resultsIterator) assets =
     (case nextFault stub (fst queryResponse) of
        Some err \<Rightarrow> Inl (StoreError err)
      | None \<Rightarrow>
          (case unmarshal (snd queryResponse) of
             Inl err \<Rightarrow> Inl (DecodingError err)
           | Inr asset \<Rightarrow>
               GetAllAssets_loop unmarshal stub resultsIterator (assets @ [asset])))\<close>

definition GetAllAssets :: \<open>Unmarshal \<Rightarrow> Stub \<Rightarrow> error + Asset list\<close> where
  \<open>GetAllAssets unmarshal stub =
     (case GetStateByRange stub [] [] of
        Inl err \<Rightarrow> Inl (StoreError err)
      | Inr resultsIterator \<Rightarrow> GetAllAssets_loop unmarshal stub resultsIterator [])\<close>

section \<open>Notions used in the statements\<close>



text \<open>The store after putting each record of a list under its own custodian name.\<close>

fun putAll :: \<open>Asset list \<Rightarrow> (string \<times> string) list \<Rightarrow> (string \<times> string) list\<close> where
  \<open>putAll [] kvs = kvs\<close>
| \<open>putAll (asset # assets) kvs =
     putAll assets (put_kv (CustodianName asset) (encodeAsset asset) kvs)\<close>


subsection \<open>Example states\<close>

text \<open>
  \<open>emptyStub\<close> is an empty ledger on which no call fails; \<open>zakiStub\<close> holds the first seed
  record; \<open>staleStub\<close> holds another record under the same key. \<open>putFailsStub\<close>,
  \<open>rangeFailsStub\<close>, \<open>nextFailsStub\<close> and \<open>adiFailsStub\<close> are ledgers on which one kind
  of call fails, and \<open>truncatedStub\<close> holds a value that was cut short.
\<close>

definition emptyStub :: Stub where
  \<open>emptyStub = \<lparr>world = [], getFault = (\<lambda>_. None), putFault = (\<lambda>_ _. None),
     delFault = (\<lambda>_. None), rangeFault = None, nextFault = (\<lambda>_. None)\<rparr>\<close>

definition zaki :: Asset where
  \<open>zaki = \<lparr>CustodianName = ''Zaki'', CustodianAgency = ''RCED'', CaseNumber = ''1'',
     EvidenceInfo = ''HP01/HP02''\<rparr>\<close>

definition aya :: Asset where
  \<open>aya = \<lparr>CustodianName = ''Aya'', CustodianAgency = ''RBPF'', CaseNumber = ''2'',
     EvidenceInfo = ''HP01/HP02/HP03''\<rparr>\<close>

definition zakiJSON :: string where
  \<open>zakiJSON =
     ''{"custodianName":"Zaki","custodianAgency":"RCED","caseNumber":"1","evidenceInfo":"HP01/HP02"}''\<close>

definition ayaJSON :: string where
  \<open>ayaJSON =
     ''{"custodianName":"Aya","custodianAgency":"RBPF","caseNumber":"2","evidenceInfo":"HP01/HP02/HP03"}''\<close>

definition zakiStub :: Stub where
  \<open>zakiStub = emptyStub\<lparr>world := [(''Zaki'', zakiJSON)]\<rparr>\<close>

definition staleStub :: Stub where
  \<open>staleStub = emptyStub\<lparr>world := [(''Zaki'',
     ''{"custodianName":"Zaki","custodianAgency":"KDN","caseNumber":"7","evidenceInfo":"SIM07"}'')]\<rparr>\<close>

definition truncatedStub :: Stub where
  \<open>truncatedStub =
     emptyStub\<lparr>world := [(''Zaki'', zakiJSON), (''Zed'', ''{"custodianName":"Zed"'')]\<rparr>\<close>


definition rangeFailsStub :: Stub where
  \<open>rangeFailsStub = zakiStub\<lparr>rangeFault := Some ''ledger unavailable''\<rparr>\<close>

definition nextFailsStub :: Stub where
  \<open>nextFailsStub =
     emptyStub\<lparr>world := [(''Aya'', ayaJSON), (''Zaki'', zakiJSON)],
       nextFault := (\<lambda>key. if key = ''Zaki'' then Some ''ledger unavailable'' else None)\<rparr>\<close>

definition adiFailsStub :: Stub where
  \<open>adiFailsStub =
     staleStub\<lparr>putFault :=
       (\<lambda>key v. if key = ''Adi'' then Some ''ledger unavailable'' else None)\<rparr>\<close>

section \<open>The store\<close>

lemma map_of_put_kv: \<open>map_of (put_kv k v kvs) = (map_of kvs)(k \<mapsto> v)\<close>
  by (induction kvs) (auto simp: fun_eq_iff)

lemma map_of_del_kv: \<open>map_of (del_kv k kvs) = (map_of kvs)(k := None)\<close>
  by (induction kvs) (auto simp: del_kv_def fun_eq_iff)


lemma fst_set_put_kv: \<open>fst ` set (put_kv k v kvs) = insert k (fst ` set kvs)\<close>
  by (induction kvs) (auto split: if_splits simp: rev_image_eqI)

text \<open>
  A store whose keys ascend keeps them ascending under every put and delete, so the iterator of
  \<open>GetStateByRange\<close> runs in key order over every store built from the empty one.
\<close>

lemma sorted_put_kv:
  \<open>sorted_wrt (<) (map fst kvs) \<Longrightarrow> sorted_wrt (<) (map fst (put_kv k v kvs))\<close>
proof (induction kvs)
  case Nil
  then show ?case by simp
next
  case (Cons kv kvs)
  obtain k' v' where kv: \<open>kv = (k', v')\<close> by (cases kv)
  show ?case
  proof (cases \<open>k = k'\<close>)
    case True
    with Cons.prems kv show ?thesis by simp
  next
    case False
    show ?thesis
    proof (cases \<open>k < k'\<close>)
      case True
      with Cons.prems kv False show ?thesis by (auto intro: less_trans)
    next
      case nl: False
      from False nl have \<open>k' < k\<close> by simp
      moreover from Cons.prems have \<open>sorted_wrt (<) (map fst kvs)\<close> by simp
      moreover from Cons.prems kv have \<open>\<forall>x\<in>fst ` set kvs. k' < x\<close> by auto
      ultimately show ?thesis using kv False nl Cons.IH
        by (simp add: fst_set_put_kv)
    qed
  qed
qed

lemma sorted_del_kv:
  \<open>sorted_wrt (<) (map fst kvs) \<Longrightarrow> sorted_wrt (<) (map fst (del_kv k kvs))\<close>
  by (induction kvs) (auto simp: del_kv_def)

lemma GetStateByRange_all:
  \<open>rangeFault stub = None \<Longrightarrow> GetStateByRange stub [] [] = Inr (world stub)\<close>
  by (simp add: GetStateByRange_def)

section \<open>The operations, branch by branch\<close>

lemma AssetExists_eq:
  \<open>AssetExists stub key =
     (case getFault stub key of
        Some err \<Rightarrow> Inl (StoreError (''failed to read from world state: '' @ err))
      | None \<Rightarrow> Inr (map_of (world stub) key \<noteq> None))\<close>
  by (simp add: AssetExists_def GetState_def split: option.splits)

lemma CreateAsset_eq:
  \<open>CreateAsset stub key custodianAgency caseNumber evidenceInfo =
     (case getFault stub key of
        Some err \<Rightarrow> (Some (StoreError (''failed to read from world state: '' @ err)), stub)
      | None \<Rightarrow>
          if map_of (world stub) key \<noteq> None then (Some (AlreadyExists key), stub)
          else
            (case putFault stub key (encodeAsset \<lparr>CustodianName = key,
                    CustodianAgency = custodianAgency, CaseNumber = caseNumber,
                    EvidenceInfo = evidenceInfo\<rparr>) of
               Some err \<Rightarrow> (Some (StoreError err), stub)
             | None \<Rightarrow>
                 (None, stub\<lparr>world := put_kv key (encodeAsset \<lparr>CustodianName = key,
                    CustodianAgency = custodianAgency, CaseNumber = caseNumber,
                    EvidenceInfo = evidenceInfo\<rparr>) (world stub)\<rparr>)))\<close>
  by (simp add: CreateAsset_def AssetExists_def GetState_def PutState_def json_Marshal_def
      split: option.splits)

lemma UpdateAsset_eq:
  \<open>UpdateAsset stub key custodianAgency caseNumber evidenceInfo =
     (case getFault stub key of
        Some err \<Rightarrow> (Some (StoreError (''failed to read from world state: '' @ err)), stub)
      | None \<Rightarrow>
          if map_of (world stub) key = None then (Some (NotFound key), stub)
          else
            (case putFault stub key (encodeAsset \<lparr>CustodianName = key,
                    CustodianAgency = custodianAgency, CaseNumber = caseNumber,
                    EvidenceInfo = evidenceInfo\<rparr>) of
               Some err \<Rightarrow> (Some (StoreError err), stub)
             | None \<Rightarrow>
                 (None, stub\<lparr>world := put_kv key (encodeAsset \<lparr>CustodianName = key,
                    CustodianAgency = custodianAgency, CaseNumber = caseNumber,
                    EvidenceInfo = evidenceInfo\<rparr>) (world stub)\<rparr>)))\<close>
  by (simp add: UpdateAsset_def AssetExists_def GetState_def PutState_def json_Marshal_def
      split: option.splits)

lemma DeleteAsset_eq:
  \<open>DeleteAsset stub key =
     (case getFault stub key of
        Some err \<Rightarrow> (Some (StoreError (''failed to read from world state: '' @ err)), stub)
      | None \<Rightarrow>
          if map_of (world stub) key = None then (Some (NotFound key), stub)
          else
            (case delFault stub key of
               Some err \<Rightarrow> (Some (StoreError err), stub)
             | None \<Rightarrow> (None, stub\<lparr>world := del_kv key (world stub)\<rparr>)))\<close>
  by (simp add: DeleteAsset_def AssetExists_def GetState_def DelState_def
      split: option.splits)

text \<open>
  The scan without store failures: the error of the first value that does not decode, or else
  the records of all values in the order of the store.
\<close>

lemma GetAllAssets_loop_eq:
  \<open>\<forall>kv\<in>set it. nextFault stub (fst kv) = None \<Longrightarrow>
   GetAllAssets_loop unmarshal stub it assets =
     (case find (\<lambda>kv. isl (unmarshal (snd kv))) it of
        Some kv \<Rightarrow> Inl (DecodingError (projl (unmarshal (snd kv))))
      | None \<Rightarrow> Inr (assets @ map (\<lambda>kv. projr (unmarshal (snd kv))) it))\<close>
proof (induction it arbitrary: assets)
  case Nil
  then show ?case by simp
next
  case (Cons kv it)
  then show ?case by (cases \<open>unmarshal (snd kv)\<close>) (auto split: option.splits)
qed

lemma GetAllAssets_eq:
  assumes \<open>rangeFault stub = None\<close>
    and \<open>\<forall>kv\<in>set (world stub). nextFault stub (fst kv) = None\<close>
  shows \<open>GetAllAssets unmarshal stub =
     (case find (\<lambda>kv. isl (unmarshal (snd kv))) (world stub) of
        Some kv \<Rightarrow> Inl (DecodingError (projl (unmarshal (snd kv))))
      | None \<Rightarrow> Inr (map (\<lambda>kv. projr (unmarshal (snd kv))) (world stub)))\<close>
  using assms
  by (auto simp: GetAllAssets_def GetStateByRange_all GetAllAssets_loop_eq split: option.splits)

text \<open>The loop of \<open>InitLedger\<close>: it runs to the first put that fails.\<close>

lemma InitLedger_loop_ok:
  \<open>\<forall>a\<in>set assets. putFault stub (CustodianName a) (encodeAsset a) = None \<Longrightarrow>
   InitLedger_loop stub assets = (None, stub\<lparr>world := putAll assets (world stub)\<rparr>)\<close>
  by (induction assets arbitrary: stub) (simp_all add: json_Marshal_def PutState_def)

lemma InitLedger_loop_stop:
  \<open>\<forall>a\<in>set pre. putFault stub (CustodianName a) (encodeAsset a) = None \<Longrightarrow>
   putFault stub (CustodianName asset) (encodeAsset asset) = Some err \<Longrightarrow>
   InitLedger_loop stub (pre @ asset # post) =
     (Some (StoreError (''failed to put to world state. '' @ err)),
      stub\<lparr>world := putAll pre (world stub)\<rparr>)\<close>
  by (induction pre arbitrary: stub) (simp_all add: json_Marshal_def PutState_def)

lemma InitLedger_loop_world:
  \<open>\<exists>written. world (snd (InitLedger_loop stub assets)) = putAll written (world stub)\<close>
proof (induction assets arbitrary: stub)
  case Nil
  have \<open>world (snd (InitLedger_loop stub [])) = putAll [] (world stub)\<close> by simp
  then show ?case by blast
next
  case (Cons a assets)
  show ?case
  proof (cases \<open>putFault stub (CustodianName a) (encodeAsset a)\<close>)
    case None
    let ?stub' = \<open>stub\<lparr>world := put_kv (CustodianName a) (encodeAsset a) (world stub)\<rparr>\<close>
    from Cons.IH [of ?stub'] obtain written where
      \<open>world (snd (InitLedger_loop ?stub' assets)) = putAll written (world ?stub')\<close> by blast
    with None have \<open>world (snd (InitLedger_loop stub (a # assets))) =
        putAll (a # written) (world stub)\<close>
      by (simp add: json_Marshal_def PutState_def)
    then show ?thesis by blast
  next
    case (Some err)
    then have \<open>world (snd (InitLedger_loop stub (a # assets))) = putAll [] (world stub)\<close>
      by (simp add: json_Marshal_def PutState_def)
    then show ?thesis by blast
  qed
qed

lemma map_of_putAll_other:
  \<open>key \<notin> CustodianName ` set assets \<Longrightarrow> map_of (putAll assets kvs) key = map_of kvs key\<close>
  by (induction assets arbitrary: kvs) (simp_all add: map_of_put_kv)

lemma map_of_putAll_distinct:
  \<open>distinct (map CustodianName assets) \<Longrightarrow> a \<in> set assets \<Longrightarrow>
   map_of (putAll assets kvs) (CustodianName a) = Some (encodeAsset a)\<close>
proof (induction assets arbitrary: kvs)
  case Nil
  then show ?case by simp
next
  case (Cons b assets)
  show ?case
  proof (cases \<open>a = b\<close>)
    case True
    with Cons.prems have \<open>CustodianName a \<notin> CustodianName ` set assets\<close> by auto
    with True show ?thesis by (simp add: map_of_putAll_other map_of_put_kv)
  next
    case False
    with Cons show ?thesis by simp
  qed
qed

lemma InitLedger_names:
  \<open>map CustodianName InitLedger_assets =
     [''Zaki'', ''Aya'', ''Adi'', ''Dan'', ''Azmi'', ''Mirul'']\<close>
  by (simp add: InitLedger_assets_def)

text \<open>Every writing operation keeps the keys of the store ascending.\<close>

lemma sorted_putAll:
  \<open>sorted_wrt (<) (map fst kvs) \<Longrightarrow> sorted_wrt (<) (map fst (putAll assets kvs))\<close>
  by (induction assets arbitrary: kvs) (simp_all add: sorted_put_kv)

lemma sorted_world_kept:
  assumes \<open>sorted_wrt (<) (map fst (world stub))\<close>
  shows \<open>sorted_wrt (<) (map fst (world (snd (InitLedger stub))))\<close>
    and \<open>sorted_wrt (<) (map fst (world (snd (CreateAsset stub key agency caseNo info))))\<close>
    and \<open>sorted_wrt (<) (map fst (world (snd (UpdateAsset stub key agency caseNo info))))\<close>
    and \<open>sorted_wrt (<) (map fst (world (snd (DeleteAsset stub key))))\<close>
    and \<open>sorted_wrt (<) (map fst (world (snd (TransferAsset unmarshal stub key name agency))))\<close>
proof -
  obtain written where \<open>world (snd (InitLedger stub)) = putAll written (world stub)\<close>
    unfolding InitLedger_def using InitLedger_loop_world by blast
  with assms show \<open>sorted_wrt (<) (map fst (world (snd (InitLedger stub))))\<close>
    by (simp add: sorted_putAll)
  from assms show
    \<open>sorted_wrt (<) (map fst (world (snd (CreateAsset stub key agency caseNo info))))\<close>
    by (simp add: CreateAsset_eq sorted_put_kv split: option.splits)
  from assms show
    \<open>sorted_wrt (<) (map fst (world (snd (UpdateAsset stub key agency caseNo info))))\<close>
    by (simp add: UpdateAsset_eq sorted_put_kv split: option.splits)
  from assms show \<open>sorted_wrt (<) (map fst (world (snd (DeleteAsset stub key))))\<close>
    by (simp add: DeleteAsset_eq sorted_del_kv split: option.splits)
  from assms show
    \<open>sorted_wrt (<) (map fst (world (snd (TransferAsset unmarshal stub key name agency))))\<close>
    by (simp add: TransferAsset_def PutState_def json_Marshal_def Let_def sorted_put_kv
        split: sum.splits option.splits)
qed

section \<open>The key invariant under puts and deletes\<close>




section \<open>The codec on plain records and on the examples\<close>




text \<open>
  Not every record can be read back, whatever the decoder: the encoder writes the same escape for
  every byte that is not part of a UTF-8 sequence, so two records that differ in such a byte have
  the same encoding.
\<close>

lemma appendString_invalid:
  \<open>appendString [CHR 0xFF] =
     [CHR 0x22, CHR 0x5C, CHR ''u'', CHR ''f'', CHR ''f'', CHR ''f'', CHR ''d'', CHR 0x22]\<close>
  \<open>appendString [CHR 0xFE] =
     [CHR 0x22, CHR 0x5C, CHR ''u'', CHR ''f'', CHR ''f'', CHR ''f'', CHR ''d'', CHR 0x22]\<close>
  by (simp_all add: appendString_def first_def RuneError_def)

lemma encodeAsset_not_injective:
  \<open>encodeAsset \<lparr>CustodianName = ''Zaki'', CustodianAgency = [CHR 0xFF], CaseNumber = ''1'',
      EvidenceInfo = ''HP01''\<rparr> =
   encodeAsset \<lparr>CustodianName = ''Zaki'', CustodianAgency = [CHR 0xFE], CaseNumber = ''1'',
      EvidenceInfo = ''HP01''\<rparr>\<close>
  by (simp add: encodeAsset_def appendString_invalid)

lemma no_decoder_reads_every_record_back:
  \<open>\<exists>asset. unmarshal (encodeAsset asset) \<noteq> Inr asset\<close>
proof -
  let ?a = \<open>\<lparr>CustodianName = ''Zaki'', CustodianAgency = [CHR 0xFF], CaseNumber = ''1'',
      EvidenceInfo = ''HP01''\<rparr>\<close>
  let ?b = \<open>\<lparr>CustodianName = ''Zaki'', CustodianAgency = [CHR 0xFE], CaseNumber = ''1'',
      EvidenceInfo = ''HP01''\<rparr>\<close>
  have \<open>?a \<noteq> ?b\<close> by simp
  then have \<open>unmarshal (encodeAsset ?a) \<noteq> Inr ?a \<or> unmarshal (encodeAsset ?b) \<noteq> Inr ?b\<close>
    using encodeAsset_not_injective by auto
  then show ?thesis by blast
qed

text \<open>The encoding of a record is never the alphabetical layout.\<close>

lemma json_Marshal_never_alphabetical:
  \<open>json_Marshal asset \<noteq> Inr (spec_alphabetical_encoding asset)\<close>
  by (simp add: json_Marshal_def encodeAsset_def spec_alphabetical_encoding_def)


lemma decode_zaki: \<open>decodeCompact zakiJSON = Inr zaki\<close>
  by (simp add: zakiJSON_def zaki_def decodeCompact_def plainField_def htmlSafeSet_def)

lemma decode_aya: \<open>decodeCompact ayaJSON = Inr aya\<close>
  by (simp add: ayaJSON_def aya_def decodeCompact_def plainField_def htmlSafeSet_def)

lemma encode_seed_0: \<open>encodeAsset (InitLedger_assets ! 0) = zakiJSON\<close>
  by (simp add: InitLedger_assets_def zakiJSON_def encodeAsset_def appendString_def
      htmlSafeSet_def)

lemma encode_seed_1: \<open>encodeAsset (InitLedger_assets ! Suc 0) = ayaJSON\<close>
  by (simp add: InitLedger_assets_def ayaJSON_def encodeAsset_def appendString_def
      htmlSafeSet_def)

lemma faults_zakiStub:
  \<open>getFault zakiStub = (\<lambda>_. None)\<close> \<open>putFault zakiStub = (\<lambda>_ _. None)\<close>
  \<open>delFault zakiStub = (\<lambda>_. None)\<close> \<open>rangeFault zakiStub = None\<close>
  \<open>nextFault zakiStub = (\<lambda>_. None)\<close> \<open>world zakiStub = [(''Zaki'', zakiJSON)]\<close>
  by (simp_all add: zakiStub_def emptyStub_def)


section \<open>The claims\<close>

subsection \<open>C1: the order of the keys in the encoding\<close>

text \<open>
  C1 says that a record is always encoded the same way, with its keys in the alphabetical order
  caseNumber, custodianAgency, custodianName, evidenceInfo. The encoding is a function of the
  record, so it is the same every time. But the keys come in the order in which the struct
  declares its fields: custodianName, custodianAgency, caseNumber, evidenceInfo. The first seed
  record shows it: what \<open>json_Marshal\<close> returns, what the alphabetical layout would be, and
  that the two differ.
\<close>

theorem C1_marshal_declaration_order:
  \<open>json_Marshal \<lparr>CustodianName = ''Zaki'', CustodianAgency = ''RCED'', CaseNumber = ''1'',
       EvidenceInfo = ''HP01/HP02''\<rparr> =
     Inr ''{"custodianName":"Zaki","custodianAgency":"RCED","caseNumber":"1","evidenceInfo":"HP01/HP02"}'' \<and>
   spec_alphabetical_encoding \<lparr>CustodianName = ''Zaki'', CustodianAgency = ''RCED'',
       CaseNumber = ''1'', EvidenceInfo = ''HP01/HP02''\<rparr> =
     ''{"caseNumber":"1","custodianAgency":"RCED","custodianName":"Zaki","evidenceInfo":"HP01/HP02"}'' \<and>
   json_Marshal \<lparr>CustodianName = ''Zaki'', CustodianAgency = ''RCED'', CaseNumber = ''1'',
       EvidenceInfo = ''HP01/HP02''\<rparr> \<noteq>
     Inr (spec_alphabetical_encoding \<lparr>CustodianName = ''Zaki'', CustodianAgency = ''RCED'',
       CaseNumber = ''1'', EvidenceInfo = ''HP01/HP02''\<rparr>)\<close>
  by (simp add: json_Marshal_def encodeAsset_def spec_alphabetical_encoding_def
      appendString_def htmlSafeSet_def)

subsection \<open>C2: transfer\<close>




subsection \<open>C3: creating a key that exists\<close>



subsection \<open>C4: updating, deleting and transferring a key that is absent\<close>



subsection \<open>C5: create, then read\<close>



subsection \<open>C6: the scan and values that do not decode\<close>

text \<open>
  C6 says that \<open>GetAllAssets\<close> fails with a decoding error when a value of the scan does not
  decode, and otherwise returns every record of the store in key order. As stated the second half
  fails when the store fails. On \<open>rangeFailsStub\<close> the only value decodes and the scan cannot
  be opened; on \<open>nextFailsStub\<close> both values decode, the scan opens and yields the first, and
  the advance to the second fails. Both calls return the error of the store and no record.
\<close>

theorem C6_scan_store_failure_counterexample:
  \<open>world rangeFailsStub = [(''Zaki'', zakiJSON)] \<and>
   world nextFailsStub = [(''Aya'', ayaJSON), (''Zaki'', zakiJSON)] \<and>
   decodeCompact ayaJSON = Inr aya \<and> decodeCompact zakiJSON = Inr zaki \<and>
   GetAllAssets decodeCompact rangeFailsStub = Inl (StoreError ''ledger unavailable'') \<and>
   GetAllAssets decodeCompact nextFailsStub = Inl (StoreError ''ledger unavailable'')\<close>
  by (simp add: GetAllAssets_def GetStateByRange_def rangeFailsStub_def nextFailsStub_def
      zakiStub_def emptyStub_def decode_zaki decode_aya)

text \<open>
  C6, amended: let the scan open and every advance of the iterator succeed. If some value of the
  store does not decode, \<open>GetAllAssets\<close> returns the decoding error of such a value, and so no
  record at all: the result is the error alone. Otherwise it returns the records of all values,
  in the order of the store.
\<close>

theorem C6_scan:
  assumes \<open>rangeFault stub = None\<close>
    and \<open>\<forall>kv\<in>set (world stub). nextFault stub (fst kv) = None\<close>
  shows \<open>((\<exists>kv\<in>set (world stub). isl (unmarshal (snd kv))) \<longrightarrow>
            (\<exists>kv\<in>set (world stub). isl (unmarshal (snd kv)) \<and>
               GetAllAssets unmarshal stub =
                 Inl (DecodingError (projl (unmarshal (snd kv)))))) \<and>
         ((\<forall>kv\<in>set (world stub). \<not> isl (unmarshal (snd kv))) \<longrightarrow>
            GetAllAssets unmarshal stub =
              Inr (map (\<lambda>kv. projr (unmarshal (snd kv))) (world stub)))\<close>
proof (intro conjI impI)
  assume \<open>\<exists>kv\<in>set (world stub). isl (unmarshal (snd kv))\<close>
  then obtain kv where f: \<open>find (\<lambda>kv. isl (unmarshal (snd kv))) (world stub) = Some kv\<close>
    by (cases \<open>find (\<lambda>kv. isl (unmarshal (snd kv))) (world stub)\<close>) (auto simp: find_None_iff)
  then have \<open>kv \<in> set (world stub)\<close> and \<open>isl (unmarshal (snd kv))\<close>
    by (auto simp: find_Some_iff)
  moreover have \<open>GetAllAssets unmarshal stub = Inl (DecodingError (projl (unmarshal (snd kv))))\<close>
    using assms f by (simp add: GetAllAssets_eq)
  ultimately show \<open>\<exists>kv\<in>set (world stub). isl (unmarshal (snd kv)) \<and>
      GetAllAssets unmarshal stub = Inl (DecodingError (projl (unmarshal (snd kv))))\<close>
    by blast
next
  assume \<open>\<forall>kv\<in>set (world stub). \<not> isl (unmarshal (snd kv))\<close>
  then have \<open>find (\<lambda>kv. isl (unmarshal (snd kv))) (world stub) = None\<close>
    by (auto simp: find_None_iff)
  then show \<open>GetAllAssets unmarshal stub =
      Inr (map (\<lambda>kv. projr (unmarshal (snd kv))) (world stub))\<close>
    using assms by (simp add: GetAllAssets_eq)
qed

text \<open>
  On \<open>zakiStub\<close> the scan returns the one record. On \<open>truncatedStub\<close> the first value
  decodes and the second does not: the scan returns the error and drops the record it had.
\<close>

theorem C6_scan_witness:
  \<open>GetAllAssets decodeCompact zakiStub = Inr [zaki] \<and>
   GetAllAssets decodeCompact truncatedStub = Inl (DecodingError ''invalid character in object'')\<close>
proof -
  have t: \<open>world truncatedStub = [(''Zaki'', zakiJSON), (''Zed'', ''{"custodianName":"Zed"'')]\<close>
    \<open>rangeFault truncatedStub = None\<close> \<open>nextFault truncatedStub = (\<lambda>_. None)\<close>
    by (simp_all add: truncatedStub_def emptyStub_def)
  have z: \<open>decodeCompact ''{"custodianName":"Zed"'' = Inl ''invalid character in object''\<close>
    by (simp add: decodeCompact_def plainField_def htmlSafeSet_def)
  have r1: \<open>rangeFault zakiStub = None\<close>
    and n1: \<open>\<forall>kv\<in>set (world zakiStub). nextFault zakiStub (fst kv) = None\<close>
    by (simp_all add: faults_zakiStub)
  have r2: \<open>rangeFault truncatedStub = None\<close>
    and n2: \<open>\<forall>kv\<in>set (world truncatedStub). nextFault truncatedStub (fst kv) = None\<close>
    by (simp_all add: t)
  show ?thesis
    using C6_scan [OF r1 n1, of decodeCompact] C6_scan [OF r2 n2, of decodeCompact]
    by (simp add: faults_zakiStub t decode_zaki z)
qed

subsection \<open>C7: the existence check\<close>

text \<open>
  C7: when the read of the key succeeds, \<open>AssetExists\<close> returns whether the store holds a value
  for it; the only error it returns is a store error, and only when the read fails. So
  \<open>AssetExists\<close> returns false before a \<open>CreateAsset\<close> that succeeds and true after it, and
  true before a \<open>DeleteAsset\<close> that succeeds and false after it.
\<close>

theorem C7_exists:
  \<open>(getFault stub key = None \<longrightarrow>
      AssetExists stub key = Inr (map_of (world stub) key \<noteq> None)) \<and>
   (\<forall>err. AssetExists stub key = Inl err \<longrightarrow>
      getFault stub key \<noteq> None \<and> (\<exists>msg. err = StoreError msg)) \<and>
   (fst (CreateAsset stub key custodianAgency caseNumber evidenceInfo) = None \<longrightarrow>
      AssetExists stub key = Inr False \<and>
      AssetExists (snd (CreateAsset stub key custodianAgency caseNumber evidenceInfo)) key =
        Inr True) \<and>
   (fst (DeleteAsset stub key) = None \<longrightarrow>
      AssetExists stub key = Inr True \<and>
      AssetExists (snd (DeleteAsset stub key)) key = Inr False)\<close>
  by (auto simp: AssetExists_eq CreateAsset_eq DeleteAsset_eq map_of_put_kv map_of_del_kv
      split: option.splits if_splits)

text \<open>On the empty ledger: absent, created, present, deleted, absent again.\<close>

theorem C7_exists_witness:
  \<open>AssetExists emptyStub ''Zaki'' = Inr False \<and>
   fst (CreateAsset emptyStub ''Zaki'' ''RCED'' ''1'' ''HP01/HP02'') = None \<and>
   AssetExists (snd (CreateAsset emptyStub ''Zaki'' ''RCED'' ''1'' ''HP01/HP02'')) ''Zaki'' =
     Inr True \<and>
   fst (DeleteAsset (snd (CreateAsset emptyStub ''Zaki'' ''RCED'' ''1'' ''HP01/HP02''))
     ''Zaki'') = None \<and>
   AssetExists (snd (DeleteAsset (snd (CreateAsset emptyStub ''Zaki'' ''RCED'' ''1''
     ''HP01/HP02'')) ''Zaki'')) ''Zaki'' = Inr False\<close>
proof -
  let ?s = \<open>snd (CreateAsset emptyStub ''Zaki'' ''RCED'' ''1'' ''HP01/HP02'')\<close>
  have c: \<open>fst (CreateAsset emptyStub ''Zaki'' ''RCED'' ''1'' ''HP01/HP02'') = None\<close>
    by (simp add: CreateAsset_eq emptyStub_def)
  have d: \<open>fst (DeleteAsset ?s ''Zaki'') = None\<close>
    by (simp add: CreateAsset_eq DeleteAsset_eq emptyStub_def)
  show ?thesis
    using c d
      C7_exists [of emptyStub \<open>''Zaki''\<close> \<open>''RCED''\<close> \<open>''1''\<close> \<open>''HP01/HP02''\<close>]
      C7_exists [of ?s \<open>''Zaki''\<close>]
    by simp
qed

subsection \<open>C8: seeding\<close>

text \<open>
  C8: \<open>InitLedger\<close> has six fixed records, named Zaki, Aya, Adi, Dan, Azmi and Mirul. When
  the six puts succeed it returns no error and the store is the old one after the six puts, each
  under the custodian name of its record: whatever the store held before, each of the six keys
  now holds the encoding of its record, and every other key holds what it held. When the put of
  record \<open>i\<close> is the first to fail, it returns that failure, and the store is the old one after
  the puts of the records before \<open>i\<close>: they stay written. (The encoder returns no error for
  these records, so a put is the only step that can fail.)
\<close>

theorem C8_seed:
  \<open>length InitLedger_assets = 6 \<and>
   map CustodianName InitLedger_assets =
     [''Zaki'', ''Aya'', ''Adi'', ''Dan'', ''Azmi'', ''Mirul''] \<and>
   ((\<forall>a\<in>set InitLedger_assets. putFault stub (CustodianName a) (encodeAsset a) = None) \<longrightarrow>
      InitLedger stub = (None, stub\<lparr>world := putAll InitLedger_assets (world stub)\<rparr>) \<and>
      (\<forall>a\<in>set InitLedger_assets.
         map_of (world (snd (InitLedger stub))) (CustodianName a) = Some (encodeAsset a)) \<and>
      (\<forall>key. key \<notin> CustodianName ` set InitLedger_assets \<longrightarrow>
         map_of (world (snd (InitLedger stub))) key = map_of (world stub) key)) \<and>
   (\<forall>i err. i < length InitLedger_assets \<and>
      (\<forall>a\<in>set (take i InitLedger_assets).
         putFault stub (CustodianName a) (encodeAsset a) = None) \<and>
      putFault stub (CustodianName (InitLedger_assets ! i))
        (encodeAsset (InitLedger_assets ! i)) = Some err \<longrightarrow>
      InitLedger stub =
        (Some (StoreError (''failed to put to world state. '' @ err)),
         stub\<lparr>world := putAll (take i InitLedger_assets) (world stub)\<rparr>))\<close>
proof (intro conjI impI allI)
  show \<open>length InitLedger_assets = 6\<close> by (simp add: InitLedger_assets_def)
  show \<open>map CustodianName InitLedger_assets =
      [''Zaki'', ''Aya'', ''Adi'', ''Dan'', ''Azmi'', ''Mirul'']\<close>
    by (rule InitLedger_names)
next
  assume ok: \<open>\<forall>a\<in>set InitLedger_assets. putFault stub (CustodianName a) (encodeAsset a) = None\<close>
  then show eq: \<open>InitLedger stub = (None, stub\<lparr>world := putAll InitLedger_assets (world stub)\<rparr>)\<close>
    by (simp add: InitLedger_def InitLedger_loop_ok)
  have d: \<open>distinct (map CustodianName InitLedger_assets)\<close>
    by (simp add: InitLedger_names)
  show \<open>\<forall>a\<in>set InitLedger_assets.
      map_of (world (snd (InitLedger stub))) (CustodianName a) = Some (encodeAsset a)\<close>
    using d by (simp add: eq map_of_putAll_distinct)
  show \<open>map_of (world (snd (InitLedger stub))) key = map_of (world stub) key\<close>
    if \<open>key \<notin> CustodianName ` set InitLedger_assets\<close> for key
    using that by (simp add: eq map_of_putAll_other)
next
  fix i err
  assume h: \<open>i < length InitLedger_assets \<and>
      (\<forall>a\<in>set (take i InitLedger_assets).
         putFault stub (CustodianName a) (encodeAsset a) = None) \<and>
      putFault stub (CustodianName (InitLedger_assets ! i))
        (encodeAsset (InitLedger_assets ! i)) = Some err\<close>
  then have split: \<open>InitLedger_assets =
      take i InitLedger_assets @ InitLedger_assets ! i # drop (Suc i) InitLedger_assets\<close>
    by (simp add: id_take_nth_drop)
  have \<open>InitLedger_loop stub
      (take i InitLedger_assets @ InitLedger_assets ! i # drop (Suc i) InitLedger_assets) =
      (Some (StoreError (''failed to put to world state. '' @ err)),
       stub\<lparr>world := putAll (take i InitLedger_assets) (world stub)\<rparr>)\<close>
    using h by (intro InitLedger_loop_stop) simp_all
  with split show \<open>InitLedger stub =
      (Some (StoreError (''failed to put to world state. '' @ err)),
       stub\<lparr>world := putAll (take i InitLedger_assets) (world stub)\<rparr>)\<close>
    by (simp add: InitLedger_def)
qed

text \<open>
  On \<open>staleStub\<close> the seeding succeeds, the store holds the six keys in ascending order, and
  the stale record under Zaki is overwritten. On \<open>adiFailsStub\<close> the third put fails: the call
  returns that error, and the records of Zaki and Aya, written before it, are in the store.
\<close>

theorem C8_seed_witness:
  \<open>fst (InitLedger staleStub) = None \<and>
   map fst (world (snd (InitLedger staleStub))) =
     [''Adi'', ''Aya'', ''Azmi'', ''Dan'', ''Mirul'', ''Zaki''] \<and>
   map_of (world (snd (InitLedger staleStub))) ''Zaki'' = Some zakiJSON \<and>
   InitLedger adiFailsStub =
     (Some (StoreError ''failed to put to world state. ledger unavailable''),
      adiFailsStub\<lparr>world := [(''Aya'', ayaJSON), (''Zaki'', zakiJSON)]\<rparr>)\<close>
proof -
  have ok: \<open>\<forall>a\<in>set InitLedger_assets.
      putFault staleStub (CustodianName a) (encodeAsset a) = None\<close>
    by (simp add: staleStub_def emptyStub_def)
  have ws: \<open>world staleStub = [(''Zaki'',
     ''{"custodianName":"Zaki","custodianAgency":"KDN","caseNumber":"7","evidenceInfo":"SIM07"}'')]\<close>
    by (simp add: staleStub_def)
  have z: \<open>InitLedger_assets ! 0 \<in> set InitLedger_assets\<close>
    by (simp add: InitLedger_assets_def)
  have n0: \<open>CustodianName (InitLedger_assets ! 0) = ''Zaki''\<close>
    by (simp add: InitLedger_assets_def)
  from C8_seed [of staleStub] ok
  have eq: \<open>InitLedger staleStub =
      (None, staleStub\<lparr>world := putAll InitLedger_assets (world staleStub)\<rparr>)\<close>
    and all: \<open>\<forall>a\<in>set InitLedger_assets.
      map_of (world (snd (InitLedger staleStub))) (CustodianName a) = Some (encodeAsset a)\<close>
    by blast+
  from all z have 1: \<open>map_of (world (snd (InitLedger staleStub))) ''Zaki'' = Some zakiJSON\<close>
    using n0 encode_seed_0 by metis
  have 2: \<open>map fst (world (snd (InitLedger staleStub))) =
      [''Adi'', ''Aya'', ''Azmi'', ''Dan'', ''Mirul'', ''Zaki'']\<close>
    by (simp add: eq InitLedger_assets_def ws)
  have pre: \<open>\<forall>a\<in>set (take 2 InitLedger_assets).
      putFault adiFailsStub (CustodianName a) (encodeAsset a) = None\<close>
    by (simp add: InitLedger_assets_def adiFailsStub_def)
  have bad: \<open>putFault adiFailsStub (CustodianName (InitLedger_assets ! 2))
      (encodeAsset (InitLedger_assets ! 2)) = Some ''ledger unavailable''\<close>
    by (simp add: InitLedger_assets_def adiFailsStub_def)
  have len: \<open>2 < length InitLedger_assets\<close>
    by (simp add: InitLedger_assets_def)
  from C8_seed [of adiFailsStub] len pre bad
  have \<open>InitLedger adiFailsStub =
      (Some (StoreError (''failed to put to world state. '' @ ''ledger unavailable'')),
       adiFailsStub\<lparr>world := putAll (take 2 InitLedger_assets) (world adiFailsStub)\<rparr>)\<close>
    by blast
  moreover have \<open>take 2 InitLedger_assets = [InitLedger_assets ! 0, InitLedger_assets ! 1]\<close>
    by (simp add: InitLedger_assets_def)
  moreover have \<open>CustodianName (InitLedger_assets ! 1) = ''Aya''\<close>
    by (simp add: InitLedger_assets_def)
  moreover have \<open>world adiFailsStub = [(''Zaki'',
     ''{"custodianName":"Zaki","custodianAgency":"KDN","caseNumber":"7","evidenceInfo":"SIM07"}'')]\<close>
    by (simp add: adiFailsStub_def ws)
  ultimately have 3: \<open>InitLedger adiFailsStub =
     (Some (StoreError ''failed to put to world state. ledger unavailable''),
      adiFailsStub\<lparr>world := [(''Aya'', ayaJSON), (''Zaki'', zakiJSON)]\<rparr>)\<close>
    by (simp add: n0 encode_seed_0 encode_seed_1)
  from eq 1 2 3 show ?thesis by simp
qed

subsection \<open>C9: keys and custodian names\<close>



subsection \<open>C10: the scan of an empty store\<close>

text \<open>
  C10: when the store holds no key and the scan opens, \<open>GetAllAssets\<close> succeeds and returns
  the empty list.
\<close>

theorem C10_scan_empty:
  assumes \<open>world stub = []\<close> and \<open>rangeFault stub = None\<close>
  shows \<open>GetAllAssets unmarshal stub = Inr []\<close>
  using assms by (simp add: GetAllAssets_def GetStateByRange_def)

theorem C10_scan_empty_witness:
  \<open>world emptyStub = [] \<and> rangeFault emptyStub = None \<and>
   GetAllAssets decodeCompact emptyStub = Inr []\<close>
proof -
  have w: \<open>world emptyStub = []\<close> and r: \<open>rangeFault emptyStub = None\<close>
    by (simp_all add: emptyStub_def)
  show ?thesis using w r C10_scan_empty [OF w r, of decodeCompact] by simp
qed

end
